theory Spec2Isabelle
  imports Complex_Main
begin

section \<open>Numbers and built-ins of the source language\<close>

text \<open>
  The source computes on Python floats. They are modelled as exact real numbers: every
  arithmetic operation is the mathematical one, without binary rounding, overflow or NaN
  (so \<^verbatim>\<open>float(start_gross)\<close> is the identity and \<^verbatim>\<open>0.40\<close> is the fraction 40/100).
  The one non-finite float the source writes, \<^verbatim>\<open>float("inf")\<close> as the width of the last
  slab, is kept as a value of its own.
\<close>

datatype amount = Finite real | Infinity

text \<open>\<^verbatim>\<open>min(remaining, slab_amount)\<close> with a finite first argument: the result is finite.\<close>

fun min_amount :: "real \<Rightarrow> amount \<Rightarrow> real" where
  "min_amount remaining (Finite slab_amount) = min remaining slab_amount"
| "min_amount remaining Infinity = remaining"

datatype error = ZeroDivisionError

text \<open>Python's \<^verbatim>\<open>a / b\<close>: raises on a zero divisor.\<close>

definition truediv :: "real \<Rightarrow> real \<Rightarrow> error + real" where
  "truediv a b = (if b = 0 then Inl ZeroDivisionError else Inr (a / b))"

text \<open>
  Python's built-in \<^verbatim>\<open>round(x)\<close>: the nearest integer, a tie going to the even neighbour;
  \<^verbatim>\<open>round(x, 2)\<close>: the same at the second decimal digit.
\<close>

definition py_round :: "real \<Rightarrow> int" where
  "py_round x =
     (let f = \<lfloor>x\<rfloor>; d = x - of_int f
      in if d < 1 / 2 then f
         else if 1 / 2 < d then f + 1
         else if even f then f else f + 1)"

definition py_round2 :: "real \<Rightarrow> real" where
  "py_round2 x = of_int (py_round (x * 100)) / 100"

section \<open>TaxCalculator\<close>

record tax_calculator =
  slabs :: "(amount \<times> real) list"
  cess_rate :: real
  std_deduction :: real

definition STD_DEDUCTION :: real where
  "STD_DEDUCTION = 50000"

definition CESS_RATE :: real where
  "CESS_RATE = 4 / 100"

definition SLABS :: "(amount \<times> real) list" where
  "SLABS =
     [(Finite 400000, 0),
      (Finite 400000, 5 / 100),
      (Finite 400000, 10 / 100),
      (Finite 400000, 15 / 100),
      (Finite 400000, 20 / 100),
      (Finite 400000, 25 / 100),
      (Infinity, 30 / 100)]"

text \<open>The constructor: an argument left out (\<open>None\<close>) takes the class default.\<close>

definition TaxCalculator ::
  "(amount \<times> real) list option \<Rightarrow> real option \<Rightarrow> real option \<Rightarrow> tax_calculator" where
  "TaxCalculator slabs_arg cess_rate_arg std_deduction_arg =
     \<lparr> slabs = (case slabs_arg of Some s \<Rightarrow> s | None \<Rightarrow> SLABS),
       cess_rate = (case cess_rate_arg of Some c \<Rightarrow> c | None \<Rightarrow> CESS_RATE),
       std_deduction = (case std_deduction_arg of Some d \<Rightarrow> d | None \<Rightarrow> STD_DEDUCTION) \<rparr>"

text \<open>
  The loop over the slabs of \<^verbatim>\<open>compute_tax\<close>, with its two variables \<open>remaining\<close> and
  \<open>tax\<close>; the \<^verbatim>\<open>break\<close> returns the tax accumulated so far.
\<close>

fun slab_loop :: "(amount \<times> real) list \<Rightarrow> real \<Rightarrow> real \<Rightarrow> real" where
  "slab_loop [] remaining tax = tax"
| "slab_loop ((slab_amount, rate) # rest) remaining tax =
     (let take = min_amount remaining slab_amount
      in if take \<le> 0 then tax
         else slab_loop rest (remaining - take) (tax + take * rate))"

definition compute_tax :: "tax_calculator \<Rightarrow> real \<Rightarrow> real" where
  "compute_tax self gross_yearly =
     (let taxable_income = max 0 (gross_yearly - std_deduction self)
      in if taxable_income \<le> 0 then 0
         else let tax = slab_loop (slabs self) taxable_income 0
              in tax + tax * cess_rate self)"

section \<open>SalaryInvestmentProjector\<close>

text \<open>
  The dictionary that \<^verbatim>\<open>project_year\<close> builds has a fixed set of keys; it is a record
  whose field \<open>rec_k\<close> is the entry with key \<open>k\<close>. \<^verbatim>\<open>round(x)\<close> gives an integer,
  \<^verbatim>\<open>round(x, 2)\<close> a float.
\<close>

record yearly_record =
  rec_year :: int
  rec_gross_yearly :: int
  rec_gross_monthly :: int
  rec_tax_yearly :: int
  rec_tax_monthly :: int
  rec_net_salary_yearly :: int
  rec_net_monthly :: int
  rec_common_ded_month :: int
  rec_other_deductions :: int
  rec_total_invest_yearly :: int
  rec_monthly_investment :: int
  rec_salary_left_month :: int
  rec_invest_percentage :: real
  rec_remarks :: string
  rec_running_invest_total :: int
  rec_cumulative_return :: int
  rec_return_percentage :: real

record salary_investment_projector =
  tax_calc :: tax_calculator
  salary_hike_rate :: real
  salary_cap :: real
  invest_monthly_cap :: real

definition SALARY_CAP :: real where
  "SALARY_CAP = 5000000"

definition INVEST_MONTHLY_CAP :: real where
  "INVEST_MONTHLY_CAP = 100000"

definition SALARY_HIKE_RATE :: real where
  "SALARY_HIKE_RATE = 5 / 100"

definition PROF_TAX_MONTH :: real where
  "PROF_TAX_MONTH = 200"

definition SalaryInvestmentProjector ::
  "tax_calculator option \<Rightarrow> real option \<Rightarrow> real option \<Rightarrow> real option
     \<Rightarrow> salary_investment_projector" where
  "SalaryInvestmentProjector tax_calc_arg salary_hike_rate_arg salary_cap_arg invest_monthly_cap_arg =
     \<lparr> tax_calc = (case tax_calc_arg of Some t \<Rightarrow> t | None \<Rightarrow> TaxCalculator None None None),
       salary_hike_rate =
         (case salary_hike_rate_arg of Some h \<Rightarrow> h | None \<Rightarrow> SALARY_HIKE_RATE),
       salary_cap = (case salary_cap_arg of Some c \<Rightarrow> c | None \<Rightarrow> SALARY_CAP),
       invest_monthly_cap =
         (case invest_monthly_cap_arg of Some c \<Rightarrow> c | None \<Rightarrow> INVEST_MONTHLY_CAP) \<rparr>"

text \<open>
  \<^verbatim>\<open>project_year\<close>. The divisions by the literals 12 and 100 cannot raise and are written
  with \<open>/\<close>; the two divisions by a computed value go through \<open>truediv\<close>, under the
  conditional expression that guards them in the source. The two running totals are
  reassigned in the source; the later \<open>let\<close> of the same name shadows the parameter.
\<close>

definition project_year ::
  "salary_investment_projector \<Rightarrow> real \<Rightarrow> real \<Rightarrow> real \<Rightarrow> real \<Rightarrow> real \<Rightarrow> real
     \<Rightarrow> error + (yearly_record \<times> real \<times> real)" where
  "project_year self gross_yearly monthly_investment other_deductions
       running_invest_total cumulative_return expected_return =
     (let basic = (40 / 100) * gross_yearly;
          emp_pf = (12 / 100) * basic;
          employer_pf = (12 / 100) * basic;
          prof_tax_yearly = PROF_TAX_MONTH * 12;
          tax_yearly = compute_tax (tax_calc self) gross_yearly;
          common_ded_yearly = emp_pf + employer_pf + prof_tax_yearly;
          common_ded_month = common_ded_yearly / 12;
          net_salary_yearly = gross_yearly - tax_yearly;
          net_monthly = net_salary_yearly / 12;
          gross_monthly = gross_yearly / 12;
          tax_monthly = tax_yearly / 12;
          monthly_investment_capped = min monthly_investment (invest_monthly_cap self);
          salary_left_month =
            net_monthly - monthly_investment_capped - common_ded_month - other_deductions
      in case (if net_monthly > 0
               then map_sum id (\<lambda>q. q * 100) (truediv monthly_investment_capped net_monthly)
               else Inr 0) of
           Inl e \<Rightarrow> Inl e
         | Inr invest_percentage \<Rightarrow>
             (let total_invest_yearly = monthly_investment_capped * 12;
                  running_invest_total = running_invest_total + total_invest_yearly;
                  cumulative_return =
                    (cumulative_return + total_invest_yearly) * (1 + expected_return / 100)
              in case (if running_invest_total > 0
                       then map_sum id (\<lambda>q. q * 100)
                              (truediv (cumulative_return - running_invest_total)
                                 running_invest_total)
                       else Inr 0) of
                   Inl e \<Rightarrow> Inl e
                 | Inr return_percentage \<Rightarrow>
                     (let remarks = (if invest_percentage > 40 then ''High'' else ''Good'');
                          result =
                            \<lparr> rec_year = 0,
                              rec_gross_yearly = py_round gross_yearly,
                              rec_gross_monthly = py_round gross_monthly,
                              rec_tax_yearly = py_round tax_yearly,
                              rec_tax_monthly = py_round tax_monthly,
                              rec_net_salary_yearly = py_round net_salary_yearly,
                              rec_net_monthly = py_round net_monthly,
                              rec_common_ded_month = py_round common_ded_month,
                              rec_other_deductions = py_round other_deductions,
                              rec_total_invest_yearly = py_round total_invest_yearly,
                              rec_monthly_investment = py_round monthly_investment_capped,
                              rec_salary_left_month = py_round salary_left_month,
                              rec_invest_percentage = py_round2 invest_percentage,
                              rec_remarks = remarks,
                              rec_running_invest_total = py_round running_invest_total,
                              rec_cumulative_return = py_round cumulative_return,
                              rec_return_percentage = py_round2 return_percentage \<rparr>
                      in Inr (result, running_invest_total, cumulative_return))))"

text \<open>
  The loop of \<^verbatim>\<open>run_projection\<close> over \<^verbatim>\<open>range(1, years + 1)\<close>, with its four variables
  \<open>gross\<close>, \<open>monthly_invest\<close>, \<open>running_invest_total\<close> and \<open>cumulative_return\<close>. The
  records are returned in the order in which the source appends them. The hiked salary is
  capped at the class constant \<open>SALARY_CAP\<close>, as the source writes it, the hiked
  investment at the projector's own \<open>invest_monthly_cap\<close>.
\<close>

fun projection_loop ::
  "salary_investment_projector \<Rightarrow> real \<Rightarrow> real \<Rightarrow> real \<Rightarrow> int list
     \<Rightarrow> real \<Rightarrow> real \<Rightarrow> real \<Rightarrow> real \<Rightarrow> error + yearly_record list" where
  "projection_loop self invest_hike_percent expected_return other_deductions []
       gross monthly_invest running_invest_total cumulative_return = Inr []"
| "projection_loop self invest_hike_percent expected_return other_deductions (y # ys)
       gross monthly_invest running_invest_total cumulative_return =
     (case project_year self gross monthly_invest other_deductions
             running_invest_total cumulative_return expected_return of
        Inl e \<Rightarrow> Inl e
      | Inr (res, running_invest_total, cumulative_return) \<Rightarrow>
          (case projection_loop self invest_hike_percent expected_return other_deductions ys
                  (min (gross * (1 + salary_hike_rate self)) SALARY_CAP)
                  (min (monthly_invest * (1 + invest_hike_percent / 100))
                     (invest_monthly_cap self))
                  running_invest_total cumulative_return of
             Inl e \<Rightarrow> Inl e
           | Inr results \<Rightarrow> Inr (res\<lparr>rec_year := y\<rparr> # results)))"

definition run_projection ::
  "salary_investment_projector \<Rightarrow> real \<Rightarrow> int \<Rightarrow> real \<Rightarrow> real \<Rightarrow> real \<Rightarrow> real
     \<Rightarrow> error + yearly_record list" where
  "run_projection self start_gross years start_monthly_investment invest_hike_percent
       expected_return other_deductions =
     projection_loop self invest_hike_percent expected_return other_deductions [1..years]
       start_gross start_monthly_investment 0 0"

section \<open>The variables of the projection loop\<close>

text \<open>
  The values that the four loop variables of \<^verbatim>\<open>run_projection\<close> hold at the start of
  each iteration, in order. \<open>loop_states\<close> follows \<open>projection_loop\<close> equation by
  equation and records the variables instead of the result of the year.
\<close>

record loop_vars =
  var_gross :: real
  var_monthly_invest :: real
  var_running_invest_total :: real
  var_cumulative_return :: real

fun loop_states ::
  "salary_investment_projector \<Rightarrow> real \<Rightarrow> real \<Rightarrow> real \<Rightarrow> int list
     \<Rightarrow> real \<Rightarrow> real \<Rightarrow> real \<Rightarrow> real \<Rightarrow> loop_vars list" where
  "loop_states self invest_hike_percent expected_return other_deductions []
       gross monthly_invest running_invest_total cumulative_return = []"
| "loop_states self invest_hike_percent expected_return other_deductions (y # ys)
       gross monthly_invest running_invest_total cumulative_return =
     \<lparr> var_gross = gross, var_monthly_invest = monthly_invest,
       var_running_invest_total = running_invest_total,
       var_cumulative_return = cumulative_return \<rparr> #
     (case project_year self gross monthly_invest other_deductions
             running_invest_total cumulative_return expected_return of
        Inl e \<Rightarrow> []
      | Inr (res, running_invest_total, cumulative_return) \<Rightarrow>
          loop_states self invest_hike_percent expected_return other_deductions ys
            (min (gross * (1 + salary_hike_rate self)) SALARY_CAP)
            (min (monthly_invest * (1 + invest_hike_percent / 100))
               (invest_monthly_cap self))
            running_invest_total cumulative_return)"

definition run_states ::
  "salary_investment_projector \<Rightarrow> real \<Rightarrow> int \<Rightarrow> real \<Rightarrow> real \<Rightarrow> real \<Rightarrow> real
     \<Rightarrow> loop_vars list" where
  "run_states self start_gross years start_monthly_investment invest_hike_percent
       expected_return other_deductions =
     loop_states self invest_hike_percent expected_return other_deductions [1..years]
       start_gross start_monthly_investment 0 0"

section \<open>Rounding as the specification words it\<close>

text \<open>
  The specification asks for currency values ``rounded to the nearest whole unit'' and
  for percentages ``rounded to 2 decimal digits''. These two predicates say so without
  reference to \<open>py_round\<close>: the result is a whole number (a whole number of hundredths)
  and no further from the exact value than half a unit (half a hundredth).
\<close>

definition nearest_whole_unit :: "real \<Rightarrow> int \<Rightarrow> bool" where
  "nearest_whole_unit x n = (\<bar>x - of_int n\<bar> \<le> 1 / 2)"

definition nearest_hundredth :: "real \<Rightarrow> real \<Rightarrow> bool" where
  "nearest_hundredth x r = (of_int \<lfloor>r * 100\<rfloor> = r * 100 \<and> \<bar>x - r\<bar> \<le> 1 / 200)"

section \<open>Facts about the built-ins\<close>

lemma py_round_nearest: "\<bar>x - of_int (py_round x)\<bar> \<le> 1 / 2"
  unfolding py_round_def Let_def by (auto simp: abs_if) linarith+

lemma py_round_whole: "nearest_whole_unit x (py_round x)"
  unfolding nearest_whole_unit_def by (rule py_round_nearest)

lemma py_round2_nearest: "nearest_hundredth x (py_round2 x)"
proof -
  have "\<bar>x * 100 - of_int (py_round (x * 100))\<bar> \<le> 1 / 2"
    by (rule py_round_nearest)
  then have "\<bar>x - of_int (py_round (x * 100)) / 100\<bar> \<le> 1 / 200"
    by (simp add: abs_if split: if_splits)
  then show ?thesis
    by (simp add: nearest_hundredth_def py_round2_def)
qed

lemma py_round2_zero: "py_round2 0 = 0"
  by (simp add: py_round2_def py_round_def)

lemma py_round_mono: "x \<le> y \<Longrightarrow> py_round x \<le> py_round y"
proof -
  assume xy: "x \<le> y"
  have fl: "\<lfloor>x\<rfloor> \<le> \<lfloor>y\<rfloor>" using xy by (rule floor_mono)
  have lo: "\<lfloor>z\<rfloor> \<le> py_round z" and hi: "py_round z \<le> \<lfloor>z\<rfloor> + 1" for z
    by (simp_all add: py_round_def Let_def)
  show ?thesis
  proof (cases "\<lfloor>x\<rfloor> = \<lfloor>y\<rfloor>")
    case True
    then show ?thesis using xy by (auto simp: py_round_def Let_def)
  next
    case False
    then have "\<lfloor>x\<rfloor> + 1 \<le> \<lfloor>y\<rfloor>" using fl by simp
    then show ?thesis using lo [of y] hi [of x] by linarith
  qed
qed

lemma guarded_percentage:
  "(if 0 < d then map_sum id (\<lambda>q. q * 100) (truediv n d) else Inr 0)
     = Inr (if 0 < d then n / d * 100 else 0)"
  by (simp add: truediv_def)

section \<open>The slab loop\<close>

text \<open>The tax accumulated before the loop is carried through unchanged.\<close>

lemma slab_loop_shift: "slab_loop ss remaining (a + b) = a + slab_loop ss remaining b"
proof (induction ss arbitrary: remaining b)
  case Nil
  show ?case by simp
next
  case (Cons s ss)
  obtain slab_amount rate where s: "s = (slab_amount, rate)" by (cases s)
  show ?case
    using Cons.IH [of "remaining - min_amount remaining slab_amount"
                      "b + min_amount remaining slab_amount * rate"]
    by (simp add: s Let_def add.assoc)
qed

lemma slab_loop_acc: "slab_loop ss remaining tax = tax + slab_loop ss remaining 0"
  using slab_loop_shift [of ss remaining tax 0] by simp

lemma slab_loop_Cons:
  "slab_loop ((slab_amount, rate) # rest) remaining 0 =
     (if min_amount remaining slab_amount \<le> 0 then 0
      else min_amount remaining slab_amount * rate
           + slab_loop rest (remaining - min_amount remaining slab_amount) 0)"
  using slab_loop_acc [of rest "remaining - min_amount remaining slab_amount"
                          "min_amount remaining slab_amount * rate"]
  by (simp add: Let_def)

lemma slab_loop_nonneg:
  "list_all (\<lambda>(slab_amount, rate). 0 \<le> rate) ss \<Longrightarrow> 0 \<le> slab_loop ss remaining 0"
proof (induction ss arbitrary: remaining)
  case Nil
  show ?case by simp
next
  case (Cons s ss)
  obtain slab_amount rate where s: "s = (slab_amount, rate)" by (cases s)
  from Cons.prems have r: "0 \<le> rate"
    and rest: "list_all (\<lambda>(slab_amount, rate). 0 \<le> rate) ss"
    by (simp_all add: s)
  show ?case
    using Cons.IH [OF rest, of "remaining - min_amount remaining slab_amount"] r
    by (simp add: s slab_loop_Cons del: slab_loop.simps)
qed

lemma min_amount_mono: "a \<le> b \<Longrightarrow> min_amount a w \<le> min_amount b w"
  by (cases w) auto

lemma remaining_mono: "a \<le> b \<Longrightarrow> a - min_amount a w \<le> b - min_amount b w"
  by (cases w) auto

lemma slab_loop_mono:
  "list_all (\<lambda>(slab_amount, rate). 0 \<le> rate) ss \<Longrightarrow> a \<le> b \<Longrightarrow>
   slab_loop ss a 0 \<le> slab_loop ss b 0"
proof (induction ss arbitrary: a b)
  case Nil
  show ?case by simp
next
  case (Cons s ss)
  obtain slab_amount rate where s: "s = (slab_amount, rate)" by (cases s)
  from Cons.prems have r: "0 \<le> rate"
    and rest: "list_all (\<lambda>(slab_amount, rate). 0 \<le> rate) ss"
    by (simp_all add: s)
  let ?ta = "min_amount a slab_amount" and ?tb = "min_amount b slab_amount"
  have t: "?ta \<le> ?tb" using Cons.prems(2) by (rule min_amount_mono)
  have d: "a - ?ta \<le> b - ?tb" using Cons.prems(2) by (rule remaining_mono)
  have ih: "slab_loop ss (a - ?ta) 0 \<le> slab_loop ss (b - ?tb) 0"
    using Cons.IH [OF rest d] .
  have nb: "0 \<le> slab_loop ss (b - ?tb) 0" using rest by (rule slab_loop_nonneg)
  show ?case
  proof (cases "?ta \<le> 0")
    case True
    then show ?thesis using nb r by (simp add: s slab_loop_Cons del: slab_loop.simps)
  next
    case False
    then have "\<not> ?tb \<le> 0" using t by simp
    moreover have "?ta * rate \<le> ?tb * rate" using t r by (rule mult_right_mono)
    ultimately show ?thesis
      using False ih by (simp add: s slab_loop_Cons del: slab_loop.simps)
  qed
qed

lemma widths_nonneg:
  "list_all (\<lambda>(w, rate). 0 < w) ws \<Longrightarrow> 0 \<le> sum_list (map fst ws)"
  for ws :: "(real \<times> real) list"
  by (induction ws) auto

lemma widths_pos:
  "list_all (\<lambda>(w, rate). 0 < w) ws \<Longrightarrow> ws \<noteq> [] \<Longrightarrow> 0 < sum_list (map fst ws)"
  for ws :: "(real \<times> real) list"
proof (cases ws)
  case Nil
  assume "ws \<noteq> []"
  with Nil show ?thesis by simp
next
  case (Cons s rest)
  assume pos: "list_all (\<lambda>(w, rate). 0 < w) ws"
  obtain w rate where s: "s = (w, rate)" by (cases s)
  from pos have "0 < w" and "list_all (\<lambda>(w, rate). 0 < w) rest"
    by (simp_all add: Cons s)
  then have "0 < w + sum_list (map fst rest)"
    using widths_nonneg [of rest] by simp
  then show ?thesis by (simp add: Cons s)
qed

text \<open>
  When every width is positive and the remaining income covers the whole table, every
  slab is consumed in full.
\<close>

lemma slab_loop_exhausted:
  "list_all (\<lambda>(w, rate). 0 < w) ws \<Longrightarrow> sum_list (map fst ws) \<le> remaining \<Longrightarrow>
   slab_loop (map (\<lambda>(w, rate). (Finite w, rate)) ws) remaining 0
     = (\<Sum>(w, rate)\<leftarrow>ws. w * rate)"
proof (induction ws arbitrary: remaining)
  case Nil
  show ?case by simp
next
  case (Cons s ws)
  obtain w rate where s: "s = (w, rate)" by (cases s)
  from Cons.prems have w: "0 < w" and rest: "list_all (\<lambda>(w, rate). 0 < w) ws"
    and le: "w + sum_list (map fst ws) \<le> remaining"
    by (simp_all add: s)
  have nn: "0 \<le> sum_list (map fst ws)" using rest by (rule widths_nonneg)
  have t: "min remaining w = w" using le nn by simp
  have "sum_list (map fst ws) \<le> remaining - w" using le by simp
  from Cons.IH [OF rest this] show ?case
    using w by (simp add: s slab_loop_Cons t del: slab_loop.simps)
qed

section \<open>The tax computation\<close>

text \<open>
  C2. With the default configuration (standard deduction 50000, the seven default slabs,
  cess 0.04), whether passed explicitly or taken from the class defaults, the taxable
  income of a gross income of 1000000 is 950000, the slabs give a tax of 35000, and
  \<open>compute_tax\<close> returns exactly 36400.
\<close>

theorem compute_tax_default_scenario:
  "(let self = TaxCalculator
       (Some [(Finite 400000, 0), (Finite 400000, 5 / 100), (Finite 400000, 10 / 100),
              (Finite 400000, 15 / 100), (Finite 400000, 20 / 100),
              (Finite 400000, 25 / 100), (Infinity, 30 / 100)])
       (Some (4 / 100)) (Some 50000)
    in max 0 (1000000 - std_deduction self) = 950000 \<and>
       slab_loop (slabs self) 950000 0 = 35000 \<and>
       compute_tax self 1000000 = 36400) \<and>
   compute_tax (TaxCalculator None None None) 1000000 = 36400"
  by (simp add: compute_tax_def TaxCalculator_def SLABS_def CESS_RATE_def STD_DEDUCTION_def)

text \<open>
  C10. A gross income at or below the standard deduction, negative incomes included, has
  a taxable income of zero and pays no tax.
\<close>

theorem compute_tax_zero_below_deduction:
  "gross_yearly \<le> std_deduction self \<Longrightarrow> compute_tax self gross_yearly = 0"
  by (simp add: compute_tax_def)

theorem compute_tax_zero_below_deduction_witness:
  "(50000::real) \<le> std_deduction (TaxCalculator None None None) \<and>
   compute_tax (TaxCalculator None None None) 50000 = 0 \<and>
   (- 1200::real) \<le> std_deduction (TaxCalculator None None None) \<and>
   compute_tax (TaxCalculator None None None) (- 1200) = 0"
proof -
  have d: "std_deduction (TaxCalculator None None None) = 50000"
    by (simp add: TaxCalculator_def STD_DEDUCTION_def)
  have a: "(50000::real) \<le> std_deduction (TaxCalculator None None None)"
    and b: "(- 1200::real) \<le> std_deduction (TaxCalculator None None None)"
    by (simp_all add: d)
  show ?thesis
    using a b compute_tax_zero_below_deduction [OF a] compute_tax_zero_below_deduction [OF b]
    by simp
qed

text \<open>
  C5. When no slab rate and not the cess rate is negative, the tax is monotone in the
  gross income: of two incomes the larger never pays less. Widths are unrestricted.
\<close>

theorem compute_tax_monotone:
  assumes rates: "list_all (\<lambda>(slab_amount, rate). 0 \<le> rate) (slabs self)"
    and cess: "0 \<le> cess_rate self"
    and lt: "gross1 < gross2"
  shows "compute_tax self gross1 \<le> compute_tax self gross2"
proof -
  let ?t1 = "max 0 (gross1 - std_deduction self)"
  let ?t2 = "max 0 (gross2 - std_deduction self)"
  have le: "?t1 \<le> ?t2" using lt by simp
  have m: "slab_loop (slabs self) ?t1 0 \<le> slab_loop (slabs self) ?t2 0"
    using rates le by (rule slab_loop_mono)
  have n: "0 \<le> slab_loop (slabs self) ?t2 0" using rates by (rule slab_loop_nonneg)
  have c: "0 \<le> 1 + cess_rate self" using cess by simp
  have eq: "compute_tax self g =
      (if max 0 (g - std_deduction self) \<le> 0 then 0
       else slab_loop (slabs self) (max 0 (g - std_deduction self)) 0
              * (1 + cess_rate self))" for g
    by (simp add: compute_tax_def Let_def algebra_simps)
  show ?thesis
  proof (cases "?t1 \<le> 0")
    case True
    then show ?thesis using n c by (simp add: eq)
  next
    case False
    then have "\<not> ?t2 \<le> 0" using le by linarith
    moreover have "slab_loop (slabs self) ?t1 0 * (1 + cess_rate self)
        \<le> slab_loop (slabs self) ?t2 0 * (1 + cess_rate self)"
      using m c by (rule mult_right_mono)
    ultimately show ?thesis using False by (simp only: eq if_False)
  qed
qed

theorem compute_tax_monotone_witness:
  "list_all (\<lambda>(slab_amount, rate). 0 \<le> rate) (slabs (TaxCalculator None None None)) \<and>
   0 \<le> cess_rate (TaxCalculator None None None) \<and>
   (1000000::real) < 1200000 \<and>
   compute_tax (TaxCalculator None None None) 1000000 = 36400 \<and>
   compute_tax (TaxCalculator None None None) 1200000 = 57200 \<and>
   compute_tax (TaxCalculator None None None) 1000000
     \<le> compute_tax (TaxCalculator None None None) 1200000"
proof -
  have a: "list_all (\<lambda>(slab_amount, rate). 0 \<le> rate) (slabs (TaxCalculator None None None))"
    by (simp add: TaxCalculator_def SLABS_def)
  have b: "0 \<le> cess_rate (TaxCalculator None None None)"
    by (simp add: TaxCalculator_def CESS_RATE_def)
  have c: "(1000000::real) < 1200000" by simp
  have v: "compute_tax (TaxCalculator None None None) 1000000 = 36400"
    "compute_tax (TaxCalculator None None None) 1200000 = 57200"
    by (simp_all add: compute_tax_def TaxCalculator_def SLABS_def CESS_RATE_def
          STD_DEDUCTION_def)
  show ?thesis using a b c v compute_tax_monotone [OF a b c] by simp
qed

text \<open>
  A slab of width zero ends the loop, since nothing can be taken from it: the slabs
  after it are never reached. With the table \<open>[(0, 0.1), (100, 0.2)]\<close>, whose widths sum
  to 100, a standard deduction of 50 and a gross income of 200, the taxable income 150
  exceeds the table, yet the tax is 0 and not \<open>(0 \<times> 0.1 + 100 \<times> 0.2) \<times> 1.04\<close>.
\<close>

theorem compute_tax_zero_width_counterexample:
  "slabs (TaxCalculator (Some [(Finite 0, 1 / 10), (Finite 100, 2 / 10)])
            (Some (4 / 100)) (Some 50))
     = [(Finite 0, 1 / 10), (Finite 100, 2 / 10)] \<and>
   (0 + 100 :: real)
     < 200 - std_deduction (TaxCalculator (Some [(Finite 0, 1 / 10), (Finite 100, 2 / 10)])
                              (Some (4 / 100)) (Some 50)) \<and>
   compute_tax (TaxCalculator (Some [(Finite 0, 1 / 10), (Finite 100, 2 / 10)])
                  (Some (4 / 100)) (Some 50)) 200 = 0 \<and>
   compute_tax (TaxCalculator (Some [(Finite 0, 1 / 10), (Finite 100, 2 / 10)])
                  (Some (4 / 100)) (Some 50)) 200
     \<noteq> (0 * (1 / 10) + 100 * (2 / 10)) * (1 + 4 / 100)"
  by (simp add: compute_tax_def TaxCalculator_def)

text \<open>
  C7, for tables of positive widths. When every slab has a finite, strictly positive
  width and the taxable income exceeds the sum \<open>W\<close> of the widths, \<open>compute_tax\<close> returns
  the tax of the \<open>W\<close> covered units, each slab taxed in full at its rate, times one plus the
  cess rate. The excess adds nothing: the result is the tax of an income whose taxable
  part is exactly \<open>W\<close>. The function returns a plain number, so no error is raised.
\<close>

theorem compute_tax_finite_table:
  assumes table: "slabs self = map (\<lambda>(w, rate). (Finite w, rate)) ws"
    and pos: "list_all (\<lambda>(w, rate). 0 < w) ws"
    and beyond: "sum_list (map fst ws) < gross_yearly - std_deduction self"
  shows "compute_tax self gross_yearly
           = (\<Sum>(w, rate)\<leftarrow>ws. w * rate) * (1 + cess_rate self) \<and>
         compute_tax self gross_yearly
           = compute_tax self (std_deduction self + sum_list (map fst ws))"
proof -
  let ?W = "sum_list (map fst ws)"
  let ?b = "gross_yearly - std_deduction self"
  have nn: "0 \<le> ?W" using pos by (rule widths_nonneg)
  have bpos: "0 < ?b" using nn beyond by simp
  have "slab_loop (slabs self) ?b 0 = (\<Sum>(w, rate)\<leftarrow>ws. w * rate)"
    unfolding table using pos beyond by (intro slab_loop_exhausted) simp_all
  then have first: "compute_tax self gross_yearly
      = (\<Sum>(w, rate)\<leftarrow>ws. w * rate) * (1 + cess_rate self)"
    using bpos by (simp add: compute_tax_def Let_def algebra_simps)
  have second: "compute_tax self (std_deduction self + ?W)
      = (\<Sum>(w, rate)\<leftarrow>ws. w * rate) * (1 + cess_rate self)"
  proof (cases "ws = []")
    case True
    then show ?thesis by (simp add: compute_tax_def)
  next
    case False
    then have wpos: "0 < ?W" using pos by (intro widths_pos)
    have "slab_loop (slabs self) ?W 0 = (\<Sum>(w, rate)\<leftarrow>ws. w * rate)"
      unfolding table using pos by (intro slab_loop_exhausted) simp_all
    then show ?thesis using wpos by (simp add: compute_tax_def Let_def algebra_simps)
  qed
  show ?thesis using first second by simp
qed

theorem compute_tax_finite_table_witness:
  "slabs (TaxCalculator (Some [(Finite 100, 1 / 10), (Finite 200, 2 / 10)])
            (Some (4 / 100)) (Some 50))
     = map (\<lambda>(w, rate). (Finite w, rate)) [(100, 1 / 10), (200, 2 / 10)] \<and>
   list_all (\<lambda>(w, rate). 0 < w) [(100::real, 1 / 10 :: real), (200, 2 / 10)] \<and>
   sum_list (map fst [(100::real, 1 / 10 :: real), (200, 2 / 10)])
     < 500 - std_deduction (TaxCalculator (Some [(Finite 100, 1 / 10), (Finite 200, 2 / 10)])
                              (Some (4 / 100)) (Some 50)) \<and>
   compute_tax (TaxCalculator (Some [(Finite 100, 1 / 10), (Finite 200, 2 / 10)])
                  (Some (4 / 100)) (Some 50)) 500 = 52 \<and>
   compute_tax (TaxCalculator (Some [(Finite 100, 1 / 10), (Finite 200, 2 / 10)])
                  (Some (4 / 100)) (Some 50)) 350 = 52"
proof -
  let ?T = "TaxCalculator (Some [(Finite 100, 1 / 10), (Finite 200, 2 / 10)])
              (Some (4 / 100)) (Some 50)"
  have a: "slabs ?T = map (\<lambda>(w, rate). (Finite w, rate)) [(100, 1 / 10), (200, 2 / 10)]"
    by (simp add: TaxCalculator_def)
  have b: "list_all (\<lambda>(w, rate). 0 < w) [(100::real, 1 / 10 :: real), (200, 2 / 10)]"
    by simp
  have c: "sum_list (map fst [(100::real, 1 / 10 :: real), (200, 2 / 10)])
             < 500 - std_deduction ?T"
    by (simp add: TaxCalculator_def)
  show ?thesis
    using a b c compute_tax_finite_table [OF a b c] by (simp add: TaxCalculator_def)
qed

section \<open>One year\<close>

text \<open>
  \<open>project_year\<close> never raises: both guarded divisions have a positive divisor when they
  are made. Its result, written out in terms of the arguments.
\<close>

lemma project_year_eq:
  "project_year self gross_yearly monthly_investment other_deductions
       running_invest_total cumulative_return expected_return =
   (let tax_yearly = compute_tax (tax_calc self) gross_yearly;
        common_ded_month =
          ((12 / 100) * ((40 / 100) * gross_yearly) + (12 / 100) * ((40 / 100) * gross_yearly)
             + PROF_TAX_MONTH * 12) / 12;
        net_monthly = (gross_yearly - tax_yearly) / 12;
        monthly_investment_capped = min monthly_investment (invest_monthly_cap self);
        invest_percentage =
          (if 0 < net_monthly then monthly_investment_capped / net_monthly * 100 else 0);
        total_invest_yearly = monthly_investment_capped * 12;
        new_running_invest_total = running_invest_total + total_invest_yearly;
        new_cumulative_return =
          (cumulative_return + total_invest_yearly) * (1 + expected_return / 100);
        return_percentage =
          (if 0 < new_running_invest_total
           then (new_cumulative_return - new_running_invest_total)
                  / new_running_invest_total * 100
           else 0)
    in Inr (\<lparr> rec_year = 0,
              rec_gross_yearly = py_round gross_yearly,
              rec_gross_monthly = py_round (gross_yearly / 12),
              rec_tax_yearly = py_round tax_yearly,
              rec_tax_monthly = py_round (tax_yearly / 12),
              rec_net_salary_yearly = py_round (gross_yearly - tax_yearly),
              rec_net_monthly = py_round net_monthly,
              rec_common_ded_month = py_round common_ded_month,
              rec_other_deductions = py_round other_deductions,
              rec_total_invest_yearly = py_round total_invest_yearly,
              rec_monthly_investment = py_round monthly_investment_capped,
              rec_salary_left_month =
                py_round (net_monthly - monthly_investment_capped - common_ded_month
                            - other_deductions),
              rec_invest_percentage = py_round2 invest_percentage,
              rec_remarks = (if 40 < invest_percentage then ''High'' else ''Good''),
              rec_running_invest_total = py_round new_running_invest_total,
              rec_cumulative_return = py_round new_cumulative_return,
              rec_return_percentage = py_round2 return_percentage \<rparr>,
            new_running_invest_total, new_cumulative_return))"
  unfolding project_year_def Let_def guarded_percentage by simp

lemma project_year_totals:
  "\<exists>res. project_year self g m od rit cr er =
           Inr (res, rit + min m (invest_monthly_cap self) * 12,
                (cr + min m (invest_monthly_cap self) * 12) * (1 + er / 100)) \<and>
         rec_gross_yearly res = py_round g \<and>
         rec_monthly_investment res = py_round (min m (invest_monthly_cap self)) \<and>
         rec_running_invest_total res = py_round (rit + min m (invest_monthly_cap self) * 12)"
  by (simp add: project_year_eq Let_def)

text \<open>
  C4. For all arguments, \<open>project_year\<close> returns a record each of whose currency fields is
  \<open>py_round\<close> of the exact value and each of whose two percentages is \<open>py_round2\<close> of the
  exact value; the remark is decided on the exact investment percentage. The two running
  totals it returns beside the record are the exact ones, and they are the ones that the
  loop of \<open>run_projection\<close> passes to the next year. \<open>py_round\<close> yields a nearest whole
  unit and \<open>py_round2\<close> a nearest hundredth.
\<close>

theorem project_year_rounding:
  "(let tax_yearly = compute_tax (tax_calc self) gross_yearly;
        common_ded_month =
          ((12 / 100) * ((40 / 100) * gross_yearly) + (12 / 100) * ((40 / 100) * gross_yearly)
             + PROF_TAX_MONTH * 12) / 12;
        net_monthly = (gross_yearly - tax_yearly) / 12;
        monthly_investment_capped = min monthly_investment (invest_monthly_cap self);
        invest_percentage =
          (if 0 < net_monthly then monthly_investment_capped / net_monthly * 100 else 0);
        total_invest_yearly = monthly_investment_capped * 12;
        new_running_invest_total = running_invest_total + total_invest_yearly;
        new_cumulative_return =
          (cumulative_return + total_invest_yearly) * (1 + expected_return / 100);
        return_percentage =
          (if 0 < new_running_invest_total
           then (new_cumulative_return - new_running_invest_total)
                  / new_running_invest_total * 100
           else 0)
    in \<exists>res.
         project_year self gross_yearly monthly_investment other_deductions
             running_invest_total cumulative_return expected_return
           = Inr (res, new_running_invest_total, new_cumulative_return) \<and>
         projection_loop self invest_hike_percent expected_return other_deductions (y # ys)
             gross_yearly monthly_investment running_invest_total cumulative_return
           = (case projection_loop self invest_hike_percent expected_return other_deductions ys
                     (min (gross_yearly * (1 + salary_hike_rate self)) SALARY_CAP)
                     (min (monthly_investment * (1 + invest_hike_percent / 100))
                        (invest_monthly_cap self))
                     new_running_invest_total new_cumulative_return of
                Inl e \<Rightarrow> Inl e
              | Inr results \<Rightarrow> Inr (res\<lparr>rec_year := y\<rparr> # results)) \<and>
         rec_gross_yearly res = py_round gross_yearly \<and>
         rec_gross_monthly res = py_round (gross_yearly / 12) \<and>
         rec_tax_yearly res = py_round tax_yearly \<and>
         rec_tax_monthly res = py_round (tax_yearly / 12) \<and>
         rec_net_salary_yearly res = py_round (gross_yearly - tax_yearly) \<and>
         rec_net_monthly res = py_round net_monthly \<and>
         rec_common_ded_month res = py_round common_ded_month \<and>
         rec_other_deductions res = py_round other_deductions \<and>
         rec_total_invest_yearly res = py_round total_invest_yearly \<and>
         rec_monthly_investment res = py_round monthly_investment_capped \<and>
         rec_salary_left_month res =
           py_round (net_monthly - monthly_investment_capped - common_ded_month
                       - other_deductions) \<and>
         rec_running_invest_total res = py_round new_running_invest_total \<and>
         rec_cumulative_return res = py_round new_cumulative_return \<and>
         rec_invest_percentage res = py_round2 invest_percentage \<and>
         rec_return_percentage res = py_round2 return_percentage \<and>
         rec_remarks res = (if 40 < invest_percentage then ''High'' else ''Good'')) \<and>
   (\<forall>x. nearest_whole_unit x (py_round x)) \<and>
   (\<forall>x. nearest_hundredth x (py_round2 x))"
  by (simp add: project_year_eq Let_def py_round_whole py_round2_nearest)

text \<open>
  An instance in which the difference shows: with a monthly investment of 0.04 the
  investment of each year is 0.48 and is reported as 0, while the running total of the
  second year is reported as 1, the rounding of 0.96, and not as 0.
\<close>

lemma run_projection_totals_unrounded_example:
  "map_sum id (map (\<lambda>r. (rec_total_invest_yearly r, rec_running_invest_total r)))
     (run_projection (SalaryInvestmentProjector None None None None) 1200000 2 (4 / 100) 0 12 0)
     = Inr [(0, 0), (0, 1)]"
  by code_simp

text \<open>
  C9. For all arguments \<open>project_year\<close> returns a result and never the division error.
  The investment percentage it reports is that of \<open>monthly_investment_capped / net_monthly
  \<times> 100\<close> when \<open>net_monthly\<close> is positive and 0 otherwise; the return percentage is that of
  \<open>(cumulative_return - running_invest_total) / running_invest_total \<times> 100\<close>, on the updated
  totals, when the updated \<open>running_invest_total\<close> is positive and 0 otherwise.
\<close>

theorem project_year_division_guards:
  "(let net_monthly = (gross_yearly - compute_tax (tax_calc self) gross_yearly) / 12;
        monthly_investment_capped = min monthly_investment (invest_monthly_cap self);
        new_running_invest_total = running_invest_total + monthly_investment_capped * 12;
        new_cumulative_return =
          (cumulative_return + monthly_investment_capped * 12) * (1 + expected_return / 100)
    in \<exists>res.
         project_year self gross_yearly monthly_investment other_deductions
             running_invest_total cumulative_return expected_return
           = Inr (res, new_running_invest_total, new_cumulative_return) \<and>
         rec_invest_percentage res =
           (if 0 < net_monthly then py_round2 (monthly_investment_capped / net_monthly * 100)
            else 0) \<and>
         rec_return_percentage res =
           (if 0 < new_running_invest_total
            then py_round2 ((new_cumulative_return - new_running_invest_total)
                              / new_running_invest_total * 100)
            else 0))"
  by (simp add: project_year_eq Let_def py_round2_zero)

text \<open>
  Both guards at their boundary: with no salary and no investment, \<open>net_monthly\<close> and the
  running total are both zero, and both percentages are reported as 0.
\<close>

lemma project_year_guards_at_zero:
  "map_sum id (\<lambda>(res, totals). (rec_invest_percentage res, rec_return_percentage res, totals))
     (project_year (SalaryInvestmentProjector None None None None) 0 0 0 0 0 12)
     = Inr (0, 0, 0, 0)"
  by code_simp

section \<open>The projection\<close>

text \<open>
  C8. When \<open>years\<close> is zero or negative the range of the loop is empty:
  \<open>run_projection\<close> returns the empty list, without an error and without any record.
\<close>

theorem run_projection_no_years:
  "years \<le> 0 \<Longrightarrow>
   run_projection self start_gross years start_monthly_investment invest_hike_percent
     expected_return other_deductions = Inr []"
  by (simp add: run_projection_def)

theorem run_projection_no_years_witness:
  "(0::int) \<le> 0 \<and> (- 3::int) \<le> 0 \<and>
   run_projection (SalaryInvestmentProjector None None None None) 1200000 0 20000 10 12 0
     = Inr [] \<and>
   run_projection (SalaryInvestmentProjector None None None None) 1200000 (- 3) 20000 10 12 0
     = Inr []"
proof -
  have a: "(0::int) \<le> 0" and b: "(- 3::int) \<le> 0"
    by simp_all
  show ?thesis
    using a b run_projection_no_years [OF a] run_projection_no_years [OF b]
    by simp
qed

text \<open>
  C3. The run of the default projector over one year from a gross salary of 1200000 and a
  monthly investment of 20000, with an investment hike of 10 percent, an expected return
  of 12 percent and no other deductions, yields exactly one record; in it the investment
  of the year is 240000, the portfolio value 268800, the running invested total 240000
  and the return percentage 12.
\<close>

theorem run_projection_single_year:
  "run_projection (SalaryInvestmentProjector None None None None) 1200000 1 20000 10 12 0 =
     Inr [\<lparr> rec_year = 1, rec_gross_yearly = 1200000, rec_gross_monthly = 100000,
            rec_tax_yearly = 57200, rec_tax_monthly = 4767,
            rec_net_salary_yearly = 1142800, rec_net_monthly = 95233,
            rec_common_ded_month = 9800, rec_other_deductions = 0,
            rec_total_invest_yearly = 240000, rec_monthly_investment = 20000,
            rec_salary_left_month = 65433, rec_invest_percentage = 21,
            rec_remarks = ''Good'', rec_running_invest_total = 240000,
            rec_cumulative_return = 268800, rec_return_percentage = 12 \<rparr>]"
  by code_simp

subsection \<open>The caps\<close>

lemma projection_loop_caps:
  "(B \<longrightarrow> g \<le> SALARY_CAP) \<Longrightarrow>
   \<exists>results. projection_loop self ihp er od ys g m rit cr = Inr results \<and>
     list_all2 (\<lambda>s r.
         rec_gross_yearly r = py_round (var_gross s) \<and>
         rec_monthly_investment r
           = py_round (min (var_monthly_invest s) (invest_monthly_cap self)) \<and>
         (B \<longrightarrow> var_gross s \<le> SALARY_CAP))
       (loop_states self ihp er od ys g m rit cr) results"
proof (induction ys arbitrary: g m rit cr)
  case Nil
  show ?case by simp
next
  case (Cons y ys)
  let ?capped = "min m (invest_monthly_cap self)"
  let ?rit = "rit + ?capped * 12"
  let ?cr = "(cr + ?capped * 12) * (1 + er / 100)"
  let ?g = "min (g * (1 + salary_hike_rate self)) SALARY_CAP"
  let ?m = "min (m * (1 + ihp / 100)) (invest_monthly_cap self)"
  obtain res where py: "project_year self g m od rit cr er = Inr (res, ?rit, ?cr)"
    and gr: "rec_gross_yearly res = py_round g"
    and mi: "rec_monthly_investment res = py_round ?capped"
    using project_year_totals [of self g m od rit cr er] by blast
  have g': "B \<longrightarrow> ?g \<le> SALARY_CAP" by simp
  from Cons.IH [OF g', of ?m ?rit ?cr]
  obtain results where loop: "projection_loop self ihp er od ys ?g ?m ?rit ?cr = Inr results"
    and all: "list_all2 (\<lambda>s r.
         rec_gross_yearly r = py_round (var_gross s) \<and>
         rec_monthly_investment r
           = py_round (min (var_monthly_invest s) (invest_monthly_cap self)) \<and>
         (B \<longrightarrow> var_gross s \<le> SALARY_CAP))
       (loop_states self ihp er od ys ?g ?m ?rit ?cr) results"
    by blast
  show ?case using Cons.prems all gr mi by (simp add: py loop)
qed

text \<open>
  The salary bound fails in two ways. With a configured \<open>salary_cap\<close> of 1000000, a
  start of 990000 and two years, the salary of the second year is 1039500: the hike is
  capped at the class constant \<open>SALARY_CAP\<close>, not at the projector's \<open>salary_cap\<close>. With
  the default cap of 5000000 and a start of 6000000, the salary of the first year is
  6000000: the start value is never capped.
\<close>

theorem run_projection_salary_cap_counterexample:
  "salary_cap (SalaryInvestmentProjector None None (Some 1000000) None) = 1000000 \<and>
   map var_gross
     (run_states (SalaryInvestmentProjector None None (Some 1000000) None)
        990000 2 20000 10 12 0) = [990000, 1039500] \<and>
   map_sum id (map rec_gross_yearly)
     (run_projection (SalaryInvestmentProjector None None (Some 1000000) None)
        990000 2 20000 10 12 0) = Inr [990000, 1039500] \<and>
   (1000000::real) < 1039500 \<and>
   salary_cap (SalaryInvestmentProjector None None None None) = 5000000 \<and>
   map var_gross
     (run_states (SalaryInvestmentProjector None None None None) 6000000 1 20000 10 12 0)
     = [6000000] \<and>
   map_sum id (map rec_gross_yearly)
     (run_projection (SalaryInvestmentProjector None None None None) 6000000 1 20000 10 12 0)
     = Inr [6000000] \<and>
   (5000000::real) < 6000000"
  by code_simp

text \<open>
  C1, as the code has it. Every run returns its records without error, one for each
  state of the loop, and a record reports the rounded gross salary of its year and the
  rounded capped monthly investment. The capped monthly investment of every year is at
  most the projector's \<open>invest_monthly_cap\<close>, for every configuration. The gross salary
  of every year is at most the projector's \<open>salary_cap\<close> when that cap is the class
  default \<open>SALARY_CAP\<close> and the starting salary does not exceed it.
\<close>

theorem run_projection_caps:
  "\<exists>results.
      run_projection self start_gross years start_monthly_investment invest_hike_percent
        expected_return other_deductions = Inr results \<and>
      list_all2 (\<lambda>s r.
          rec_gross_yearly r = py_round (var_gross s) \<and>
          rec_monthly_investment r
            = py_round (min (var_monthly_invest s) (invest_monthly_cap self)) \<and>
          min (var_monthly_invest s) (invest_monthly_cap self) \<le> invest_monthly_cap self \<and>
          (salary_cap self = SALARY_CAP \<and> start_gross \<le> salary_cap self
             \<longrightarrow> var_gross s \<le> salary_cap self))
        (run_states self start_gross years start_monthly_investment invest_hike_percent
           expected_return other_deductions)
        results"
proof -
  let ?B = "salary_cap self = SALARY_CAP \<and> start_gross \<le> salary_cap self"
  have "?B \<longrightarrow> start_gross \<le> SALARY_CAP" by simp
  from projection_loop_caps [OF this, of self invest_hike_percent expected_return
      other_deductions "[1..years]" start_monthly_investment 0 0]
  obtain results where
    run: "projection_loop self invest_hike_percent expected_return other_deductions
            [1..years] start_gross start_monthly_investment 0 0 = Inr results"
    and all: "list_all2 (\<lambda>s r.
         rec_gross_yearly r = py_round (var_gross s) \<and>
         rec_monthly_investment r
           = py_round (min (var_monthly_invest s) (invest_monthly_cap self)) \<and>
         (?B \<longrightarrow> var_gross s \<le> SALARY_CAP))
       (loop_states self invest_hike_percent expected_return other_deductions [1..years]
          start_gross start_monthly_investment 0 0) results"
    by blast
  from all have "list_all2 (\<lambda>s r.
          rec_gross_yearly r = py_round (var_gross s) \<and>
          rec_monthly_investment r
            = py_round (min (var_monthly_invest s) (invest_monthly_cap self)) \<and>
          min (var_monthly_invest s) (invest_monthly_cap self) \<le> invest_monthly_cap self \<and>
          (?B \<longrightarrow> var_gross s \<le> salary_cap self))
       (loop_states self invest_hike_percent expected_return other_deductions [1..years]
          start_gross start_monthly_investment 0 0) results"
    by (rule list_all2_mono) auto
  with run show ?thesis
    unfolding run_projection_def run_states_def by blast
qed

theorem run_projection_caps_witness:
  "salary_cap (SalaryInvestmentProjector None None None None) = SALARY_CAP \<and>
   4900000 \<le> salary_cap (SalaryInvestmentProjector None None None None) \<and>
   map var_gross
     (run_states (SalaryInvestmentProjector None None None None) 4900000 3 95000 10 12 0)
     = [4900000, 5000000, 5000000] \<and>
   map (\<lambda>s. min (var_monthly_invest s)
                (invest_monthly_cap (SalaryInvestmentProjector None None None None)))
     (run_states (SalaryInvestmentProjector None None None None) 4900000 3 95000 10 12 0)
     = [95000, 100000, 100000] \<and>
   map_sum id (map rec_gross_yearly)
     (run_projection (SalaryInvestmentProjector None None None None) 4900000 3 95000 10 12 0)
     = Inr [4900000, 5000000, 5000000] \<and>
   map_sum id (map rec_monthly_investment)
     (run_projection (SalaryInvestmentProjector None None None None) 4900000 3 95000 10 12 0)
     = Inr [95000, 100000, 100000]"
proof -
  have e: ?thesis by code_simp
  show ?thesis
    using e run_projection_caps
      [of "SalaryInvestmentProjector None None None None" 4900000 3 95000 10 12 0]
    by simp
qed

subsection \<open>The running invested total\<close>

lemma projection_loop_running_total:
  assumes cap: "0 \<le> invest_monthly_cap self" and hike: "0 \<le> 1 + ihp / 100"
  shows "0 \<le> m \<Longrightarrow>
    \<exists>results. projection_loop self ihp er od ys g m rit cr = Inr results \<and>
      length results = length ys \<and>
      sorted (map rec_running_invest_total results) \<and>
      list_all (\<lambda>r. py_round rit \<le> rec_running_invest_total r) results"
proof (induction ys arbitrary: g m rit cr)
  case Nil
  show ?case by simp
next
  case (Cons y ys)
  let ?capped = "min m (invest_monthly_cap self)"
  let ?rit = "rit + ?capped * 12"
  let ?cr = "(cr + ?capped * 12) * (1 + er / 100)"
  let ?g = "min (g * (1 + salary_hike_rate self)) SALARY_CAP"
  let ?m = "min (m * (1 + ihp / 100)) (invest_monthly_cap self)"
  obtain res where py: "project_year self g m od rit cr er = Inr (res, ?rit, ?cr)"
    and run: "rec_running_invest_total res = py_round ?rit"
    using project_year_totals [of self g m od rit cr er] by blast
  have "0 \<le> ?capped" using Cons.prems cap by simp
  then have up: "rit \<le> ?rit" by simp
  have "0 \<le> m * (1 + ihp / 100)" using Cons.prems hike by simp
  then have m': "0 \<le> ?m" using cap by simp
  from Cons.IH [OF m', of ?g ?rit ?cr]
  obtain results where loop: "projection_loop self ihp er od ys ?g ?m ?rit ?cr = Inr results"
    and len: "length results = length ys"
    and srt: "sorted (map rec_running_invest_total results)"
    and lb: "list_all (\<lambda>r. py_round ?rit \<le> rec_running_invest_total r) results"
    by blast
  have step: "projection_loop self ihp er od (y # ys) g m rit cr
                = Inr (res\<lparr>rec_year := y\<rparr> # results)"
    by (simp add: py loop)
  have le: "py_round rit \<le> py_round ?rit" using up by (rule py_round_mono)
  have lb': "list_all (\<lambda>r. py_round rit \<le> rec_running_invest_total r) results"
    using lb le by (auto simp: list_all_iff)
  have "sorted (map rec_running_invest_total (res\<lparr>rec_year := y\<rparr> # results))"
    using srt lb run by (auto simp: list_all_iff)
  then show ?case using step len lb' le run by simp
qed

text \<open>
  The running total can fall. With an investment hike of -200 percent the monthly
  investment of the second year is negative, and the reported totals are 12000 and then
  0; with a negative starting investment they are -12000 and then -25200; with a negative
  investment cap they are -6000 and then -12000.
\<close>

theorem run_projection_running_total_counterexample:
  "map_sum id (map rec_running_invest_total)
     (run_projection (SalaryInvestmentProjector None None None None)
        1200000 2 1000 (- 200) 12 0) = Inr [12000, 0] \<and>
   map_sum id (map rec_running_invest_total)
     (run_projection (SalaryInvestmentProjector None None None None)
        1200000 2 (- 1000) 10 12 0) = Inr [- 12000, - 25200] \<and>
   map_sum id (map rec_running_invest_total)
     (run_projection (SalaryInvestmentProjector None None None (Some (- 500)))
        1200000 2 1000 10 12 0) = Inr [- 6000, - 12000] \<and>
   (0::int) < 12000 \<and> (- 25200::int) < - 12000 \<and> (- 12000::int) < - 6000"
  by code_simp

text \<open>
  C6, for non-negative investments. When the starting monthly investment and the
  investment cap are not negative and the investment hike is at least -100 percent, every
  run returns one record for each year, and the running invested total reported for a
  year is at most the one reported for the next year.
\<close>

theorem run_projection_running_total_nondecreasing:
  assumes "0 \<le> start_monthly_investment" and "0 \<le> invest_monthly_cap self"
    and "- 100 \<le> invest_hike_percent"
  shows "\<exists>results.
      run_projection self start_gross years start_monthly_investment invest_hike_percent
        expected_return other_deductions = Inr results \<and>
      length results = nat years \<and>
      (\<forall>i. Suc i < length results \<longrightarrow>
         rec_running_invest_total (results ! i)
           \<le> rec_running_invest_total (results ! Suc i))"
proof -
  have hike: "0 \<le> 1 + invest_hike_percent / 100" using assms(3) by simp
  from projection_loop_running_total [OF assms(2) hike assms(1),
      of expected_return other_deductions "[1..years]" start_gross 0 0]
  obtain results where
    run: "projection_loop self invest_hike_percent expected_return other_deductions
            [1..years] start_gross start_monthly_investment 0 0 = Inr results"
    and len: "length results = length [1..years]"
    and srt: "sorted (map rec_running_invest_total results)"
    by blast
  have "rec_running_invest_total (results ! i) \<le> rec_running_invest_total (results ! Suc i)"
    if "Suc i < length results" for i
    using sorted_nth_mono [OF srt, of i "Suc i"] that by simp
  then show ?thesis using run len by (simp add: run_projection_def)
qed

theorem run_projection_running_total_nondecreasing_witness:
  "(0::real) \<le> 20000 \<and>
   0 \<le> invest_monthly_cap (SalaryInvestmentProjector None None None None) \<and>
   (- 100::real) \<le> 10 \<and>
   map_sum id (map rec_running_invest_total)
     (run_projection (SalaryInvestmentProjector None None None None) 1200000 3 20000 10 12 0)
     = Inr [240000, 504000, 794400]"
proof -
  have e: ?thesis by code_simp
  have a: "(0::real) \<le> 20000"
    and b: "0 \<le> invest_monthly_cap (SalaryInvestmentProjector None None None None)"
    and c: "(- 100::real) \<le> 10"
    using e by simp_all
  show ?thesis
    using e run_projection_running_total_nondecreasing [OF a b c, of 1200000 3 12 0]
    by simp
qed

end
